theory Spec2Isabelle
  imports Main "HOL-Library.Sublist"
begin

section \<open>The to-do list of script.js\<close>

text \<open>
  The script keeps one global object \<^verbatim>\<open>state\<close> and writes it to the page with
  \<^verbatim>\<open>render()\<close>. The items of \<^verbatim>\<open>state.todos\<close> are JavaScript objects: the array holds
  references to them, and the click listener of a rendered row holds, in its closure, a
  reference to the object the row was built from. The model therefore has an object store:
  a reference is an address, the store maps every address to a record, and an object
  literal takes the next unused address.
\<close>

subsection \<open>Data\<close>

type_synonym ref = nat

text \<open>An item \<^verbatim>\<open>{ text, completed }\<close>.\<close>

record todo =
  item_text :: string
  completed :: bool

text \<open>The object \<^verbatim>\<open>state\<close> (lines 7 to 24).\<close>

record app_state =
  hideCompleted :: bool
  formIsValid :: bool
  todos :: "ref list"

text \<open>
  A rendered \<^verbatim>\<open><li>\<close>: its text node, its class name and the item captured by its click
  listener (lines 90 to 112).
\<close>

record li =
  textNode :: string
  className :: string
  click_item :: ref

text \<open>
  The parts of the page the script reads or writes: the children of \<^verbatim>\<open>#todos ul\<close>, the
  content of \<^verbatim>\<open>#todos pre\<close>, the class of \<^verbatim>\<open>#todos form\<close>, the text input (the first
  control of the form) and the checkbox.
\<close>

record document =
  ul :: "li list"
  pre_innerHTML :: string
  form_className :: string
  textEl_value :: string
  textEl_focused :: bool
  checkbox_checked :: bool

text \<open>
  The effects of the script, in the order it performs them: the calls on the event, the
  writes to \<^verbatim>\<open>state\<close> and to the items, and the writes to the page.
\<close>

datatype effect =
    PreventDefault
  | StopPropagation
  | TodosPush ref
  | SetCompleted ref bool
  | SetFormIsValid bool
  | SetHideCompleted bool
  | RemoveListItems
  | AppendListItem li
  | SetFormClassName string
  | SetHelperHTML string
  | SetInputValue string
  | FocusInput

record world =
  state :: app_state
  heap :: "ref \<Rightarrow> todo"
  fresh :: ref
  page :: document
  trace :: "effect list"

definition emit :: "effect \<Rightarrow> world \<Rightarrow> world" where
  "emit e w = w\<lparr>trace := trace w @ [e]\<rparr>"

subsection \<open>Rendering (lines 51 to 137)\<close>

text \<open>
  \<^verbatim>\<open>state.todos.filter(item => state.hideCompleted ? !item.completed : true)\<close>
\<close>

definition getVisibleTodos :: "world \<Rightarrow> ref list" where
  "getVisibleTodos w =
     filter (\<lambda>item. if hideCompleted (state w) then \<not> completed (heap w item) else True)
       (todos (state w))"

text \<open>\<^verbatim>\<open>querySelectorAll('#todos ul *').forEach($ => $.remove())\<close>\<close>

definition resetDOMList :: "world \<Rightarrow> world" where
  "resetDOMList w = emit RemoveListItems (w\<lparr>page := (page w)\<lparr>ul := []\<rparr>\<rparr>)"

text \<open>
  The element \<^verbatim>\<open>renderDOMListItem\<close> builds: a new element has the empty class name, and
  \<^verbatim>\<open>'is-done'\<close> is assigned only when the item is completed.
\<close>

definition createLi :: "(ref \<Rightarrow> todo) \<Rightarrow> ref \<Rightarrow> li" where
  "createLi h item =
     \<lparr>textNode = item_text (h item),
      className = (if completed (h item) then ''is-done'' else ''''),
      click_item = item\<rparr>"

definition renderDOMListItem :: "ref \<Rightarrow> world \<Rightarrow> world" where
  "renderDOMListItem item w =
     (let el = createLi (heap w) item
      in emit (AppendListItem el) (w\<lparr>page := (page w)\<lparr>ul := ul (page w) @ [el]\<rparr>\<rparr>))"

text \<open>\<^verbatim>\<open>getVisibleTodos().forEach(renderDOMListItem)\<close>\<close>

definition renderDOMList :: "world \<Rightarrow> world" where
  "renderDOMList w = fold renderDOMListItem (getVisibleTodos w) w"

text \<open>
  \<^verbatim>\<open>getVisibleTodos().length ? null : 'Create your first task!'\<close>:
  the number 0 is the only falsy length.
\<close>

definition getHelperMessage :: "world \<Rightarrow> string option" where
  "getHelperMessage w =
     (if length (getVisibleTodos w) \<noteq> 0 then None else Some ''Create your first task!'')"

text \<open>
  Assigning \<^verbatim>\<open>null\<close> to \<^verbatim>\<open>innerHTML\<close> stores the empty string; the message has no
  markup character, so it is stored as it is.
\<close>

definition innerHTML_of :: "string option \<Rightarrow> string" where
  "innerHTML_of m = (case m of None \<Rightarrow> '''' | Some s \<Rightarrow> s)"

definition renderDOMHelperMessage :: "world \<Rightarrow> world" where
  "renderDOMHelperMessage w =
     (let html = innerHTML_of (getHelperMessage w)
      in emit (SetHelperHTML html) (w\<lparr>page := (page w)\<lparr>pre_innerHTML := html\<rparr>\<rparr>))"

definition getFormClassName :: "world \<Rightarrow> string" where
  "getFormClassName w = (if formIsValid (state w) then ''is-valid'' else '''')"

definition renderDOMFormStatus :: "world \<Rightarrow> world" where
  "renderDOMFormStatus w =
     (let c = getFormClassName w
      in emit (SetFormClassName c) (w\<lparr>page := (page w)\<lparr>form_className := c\<rparr>\<rparr>))"

definition render :: "world \<Rightarrow> world" where
  "render w =
     renderDOMHelperMessage (renderDOMFormStatus (renderDOMList (resetDOMList w)))"

subsection \<open>The click listener of a row (lines 109 to 112)\<close>

text \<open>\<^verbatim>\<open>item.completed = !item.completed; render()\<close>, on the captured item.\<close>

definition li_click :: "ref \<Rightarrow> world \<Rightarrow> world" where
  "li_click item w =
     (let c = \<not> completed (heap w item)
      in render (emit (SetCompleted item c)
           (w\<lparr>heap := (heap w)(item := (heap w item)\<lparr>completed := c\<rparr>)\<rparr>)))"

subsection \<open>Handlers (lines 148 to 229)\<close>

text \<open>
  \<^verbatim>\<open>state.todos.push({ completed: false, text: v })\<close>: the literal is a new object.
\<close>

definition todos_push :: "string \<Rightarrow> world \<Rightarrow> world" where
  "todos_push v w =
     (let a = fresh w
      in emit (TodosPush a)
           (w\<lparr>heap := (heap w)(a := \<lparr>item_text = v, completed = False\<rparr>),
              fresh := Suc a,
              state := (state w)\<lparr>todos := todos (state w) @ [a]\<rparr>\<rparr>))"

definition set_textEl_value :: "string \<Rightarrow> world \<Rightarrow> world" where
  "set_textEl_value v w = emit (SetInputValue v) (w\<lparr>page := (page w)\<lparr>textEl_value := v\<rparr>\<rparr>)"

definition textEl_focus :: "world \<Rightarrow> world" where
  "textEl_focus w = emit FocusInput (w\<lparr>page := (page w)\<lparr>textEl_focused := True\<rparr>\<rparr>)"

text \<open>
  \<^verbatim>\<open>handleSubmit\<close>: \<^verbatim>\<open>e.target[0]\<close> is the text input, and \<^verbatim>\<open>!textEl.value\<close> holds
  of the empty string only.
\<close>

definition handleSubmit :: "world \<Rightarrow> world" where
  "handleSubmit w =
     (let w1 = emit PreventDefault w;
          w2 = emit StopPropagation w1;
          v = textEl_value (page w2)
      in if v = '''' then w2
         else textEl_focus (set_textEl_value '''' (render (todos_push v w2))))"

text \<open>
  \<^verbatim>\<open>handleForm\<close>: \<^verbatim>\<open>e.target\<close> is the text input. A JavaScript string counts UTF-16
  units and a HOL string counts characters; both lengths are 0 for the empty string only.
\<close>

definition handleForm :: "world \<Rightarrow> world" where
  "handleForm w =
     (let len = length (textEl_value (page w));
          b = (len > 0)
      in render (emit (SetFormIsValid b) (w\<lparr>state := (state w)\<lparr>formIsValid := b\<rparr>\<rparr>)))"

text \<open>\<^verbatim>\<open>handleHide\<close>: \<^verbatim>\<open>e.target\<close> is the checkbox.\<close>

definition handleHide :: "world \<Rightarrow> world" where
  "handleHide w =
     (let b = checkbox_checked (page w)
      in render (emit (SetHideCompleted b) (w\<lparr>state := (state w)\<lparr>hideCompleted := b\<rparr>\<rparr>)))"

subsection \<open>Events\<close>

text \<open>
  The four listeners the script registers. A click on a row reaches the listener of the
  row at that position of the list; there is no row to click beyond the end of the list.
\<close>

datatype event = Submit | KeyUp | CheckboxClick | ItemClick nat

fun dispatch :: "event \<Rightarrow> world \<Rightarrow> world" where
  "dispatch Submit w = handleSubmit w"
| "dispatch KeyUp w = handleForm w"
| "dispatch CheckboxClick w = handleHide w"
| "dispatch (ItemClick i) w =
     (if i < length (ul (page w)) then li_click (click_item (ul (page w) ! i)) w else w)"

text \<open>
  The script as loaded: the literal of lines 7 to 24 and the \<^verbatim>\<open>render()\<close> of line 236, on
  the page \<open>html\<close> the host supplies.
\<close>

definition seed_heap :: "ref \<Rightarrow> todo" where
  "seed_heap =
     (\<lambda>_. \<lparr>item_text = '''', completed = False\<rparr>)
       (0 := \<lparr>item_text = ''buy milk'', completed = True\<rparr>,
        1 := \<lparr>item_text = ''clean kitchen'', completed = False\<rparr>,
        2 := \<lparr>item_text = ''learn js'', completed = False\<rparr>)"

definition seed_state :: app_state where
  "seed_state = \<lparr>hideCompleted = False, formIsValid = False, todos = [0, 1, 2]\<rparr>"

definition loaded :: "document \<Rightarrow> world" where
  "loaded html = \<lparr>state = seed_state, heap = seed_heap, fresh = 3, page = html, trace = []\<rparr>"

definition start :: "document \<Rightarrow> world" where
  "start html = render (loaded html)"

definition blank_page :: document where
  "blank_page =
     \<lparr>ul = [], pre_innerHTML = '''', form_className = '''',
      textEl_value = '''', textEl_focused = False, checkbox_checked = False\<rparr>"

text \<open>
  What the host does between two events: the user edits the text input, moves the focus
  or ticks the checkbox. None of it calls the script.
\<close>

definition host_input :: "string \<Rightarrow> bool \<Rightarrow> bool \<Rightarrow> world \<Rightarrow> world" where
  "host_input v f c w =
     w\<lparr>page := (page w)\<lparr>textEl_value := v, textEl_focused := f, checkbox_checked := c\<rparr>\<rparr>"

inductive reachable :: "world \<Rightarrow> bool" where
  reachable_start: "reachable (start html)"
| reachable_event: "reachable w \<Longrightarrow> reachable (dispatch ev w)"
| reachable_input: "reachable w \<Longrightarrow> reachable (host_input v f c w)"

text \<open>
  The scenario of the specification: the seed items with the checkbox ticked.
\<close>

definition seed_hidden :: world where
  "seed_hidden = handleHide (host_input '''' False True (start blank_page))"

text \<open>The seed items with a text typed into the input, before it is submitted.\<close>

definition seed_typed :: "string \<Rightarrow> world" where
  "seed_typed v = host_input v True False (start blank_page)"

subsection \<open>The view the specification describes\<close>

text \<open>
  The three rendered parts of the page: the rows, the helper message and the class of the
  form.
\<close>

record view =
  view_rows :: "li list"
  view_helper :: string
  view_form :: string

definition rendered :: "document \<Rightarrow> view" where
  "rendered p =
     \<lparr>view_rows = ul p, view_helper = pre_innerHTML p, view_form = form_className p\<rparr>"

text \<open>
  Section 4.1 of the specification, in its words: one row per item where
  \<^verbatim>\<open>hideCompleted == false OR item.completed == false\<close>, in list order; each row
  shows the text of its item and carries the done marker when the item is completed; the
  helper message is a fixed string when no row is visible and absent otherwise; the form
  marker is present when \<^verbatim>\<open>formIsValid == true\<close>.
\<close>

definition spec_filter :: "(ref \<Rightarrow> todo) \<Rightarrow> ref list \<Rightarrow> bool \<Rightarrow> ref list" where
  "spec_filter h items hide =
     filter (\<lambda>item. hide = False \<or> completed (h item) = False) items"

definition spec_row :: "(ref \<Rightarrow> todo) \<Rightarrow> ref \<Rightarrow> li" where
  "spec_row h item =
     \<lparr>textNode = item_text (h item),
      className = (if completed (h item) = True then ''is-done'' else ''''),
      click_item = item\<rparr>"

definition spec_render :: "app_state \<Rightarrow> (ref \<Rightarrow> todo) \<Rightarrow> view" where
  "spec_render s h =
     (let visible = spec_filter h (todos s) (hideCompleted s)
      in \<lparr>view_rows = map (spec_row h) visible,
          view_helper = (if length visible = 0 then ''Create your first task!'' else ''''),
          view_form = (if formIsValid s = True then ''is-valid'' else '''')\<rparr>)"

definition in_sync :: "world \<Rightarrow> bool" where
  "in_sync w = (rendered (page w) = spec_render (state w) (heap w))"

text \<open>
  The items of the list are distinct objects, all of them allocated: every element of
  \<^verbatim>\<open>state.todos\<close> comes from an object literal of its own.
\<close>

definition heap_ok :: "world \<Rightarrow> bool" where
  "heap_ok w =
     (distinct (todos (state w)) \<and> list_all (\<lambda>a. a < fresh w) (todos (state w)))"

definition well_formed :: "world \<Rightarrow> bool" where
  "well_formed w = (heap_ok w \<and> in_sync w)"

text \<open>The items of the list, as values, in list order.\<close>

definition items :: "world \<Rightarrow> todo list" where
  "items w = map (heap w) (todos (state w))"

section \<open>Properties\<close>

subsection \<open>Rendering\<close>

lemma emit_simps:
  "state (emit e w) = state w" "heap (emit e w) = heap w" "fresh (emit e w) = fresh w"
  "page (emit e w) = page w" "trace (emit e w) = trace w @ [e]"
  by (simp_all add: emit_def)

lemma getVisibleTodos_cong:
  "state w' = state w \<Longrightarrow> heap w' = heap w \<Longrightarrow> getVisibleTodos w' = getVisibleTodos w"
  by (simp add: getVisibleTodos_def)

lemma fold_item_frame:
  "state (fold renderDOMListItem xs w) = state w"
  "heap (fold renderDOMListItem xs w) = heap w"
  "fresh (fold renderDOMListItem xs w) = fresh w"
  by (induction xs arbitrary: w) (simp_all add: renderDOMListItem_def emit_simps Let_def)

lemma fold_item_page:
  "page (fold renderDOMListItem xs w)
     = (page w)\<lparr>ul := ul (page w) @ map (createLi (heap w)) xs\<rparr>"
  by (induction xs arbitrary: w) (simp_all add: renderDOMListItem_def emit_simps Let_def)

lemma fold_item_trace:
  "trace (fold renderDOMListItem xs w)
     = trace w @ map (\<lambda>a. AppendListItem (createLi (heap w) a)) xs"
  by (induction xs arbitrary: w) (simp_all add: renderDOMListItem_def emit_simps Let_def)

lemma render_frame:
  "state (render w) = state w" "heap (render w) = heap w" "fresh (render w) = fresh w"
  by (simp_all add: render_def renderDOMHelperMessage_def renderDOMFormStatus_def
      renderDOMList_def resetDOMList_def emit_simps Let_def fold_item_frame)

lemma getVisibleTodos_list:
  "getVisibleTodos (renderDOMFormStatus (renderDOMList (resetDOMList w))) = getVisibleTodos w"
  by (rule getVisibleTodos_cong)
     (simp_all add: renderDOMFormStatus_def renderDOMList_def resetDOMList_def emit_simps
        Let_def fold_item_frame)

lemma getVisibleTodos_reset: "getVisibleTodos (resetDOMList w) = getVisibleTodos w"
  by (rule getVisibleTodos_cong) (simp_all add: resetDOMList_def emit_simps)

lemma render_steps:
  "getHelperMessage (renderDOMFormStatus (renderDOMList (resetDOMList w))) = getHelperMessage w"
  "getFormClassName (renderDOMList (resetDOMList w)) = getFormClassName w"
proof -
  show "getHelperMessage (renderDOMFormStatus (renderDOMList (resetDOMList w)))
      = getHelperMessage w"
    by (simp add: getHelperMessage_def getVisibleTodos_list)
  show "getFormClassName (renderDOMList (resetDOMList w)) = getFormClassName w"
    by (simp add: getFormClassName_def renderDOMList_def resetDOMList_def fold_item_frame
        emit_simps)
qed

lemma render_page:
  "page (render w) =
     (page w)\<lparr>ul := map (createLi (heap w)) (getVisibleTodos w),
              form_className := getFormClassName w,
              pre_innerHTML := innerHTML_of (getHelperMessage w)\<rparr>"
proof -
  have l: "page (renderDOMList (resetDOMList w))
      = (page w)\<lparr>ul := map (createLi (heap w)) (getVisibleTodos w)\<rparr>"
    by (simp add: renderDOMList_def fold_item_page getVisibleTodos_reset)
       (simp add: resetDOMList_def emit_simps)
  show ?thesis
    unfolding render_def
    by (simp add: renderDOMHelperMessage_def Let_def emit_simps render_steps)
       (simp add: renderDOMFormStatus_def Let_def emit_simps render_steps l)
qed

lemma render_trace:
  "trace (render w) =
     trace w @ [RemoveListItems]
       @ map (\<lambda>a. AppendListItem (createLi (heap w) a)) (getVisibleTodos w)
       @ [SetFormClassName (getFormClassName w),
          SetHelperHTML (innerHTML_of (getHelperMessage w))]"
proof -
  have l: "trace (renderDOMList (resetDOMList w))
      = trace w @ [RemoveListItems]
          @ map (\<lambda>a. AppendListItem (createLi (heap w) a)) (getVisibleTodos w)"
    by (simp add: renderDOMList_def fold_item_trace getVisibleTodos_reset)
       (simp add: resetDOMList_def emit_simps)
  show ?thesis
    unfolding render_def
    by (simp add: renderDOMHelperMessage_def Let_def emit_simps render_steps)
       (simp add: renderDOMFormStatus_def Let_def emit_simps render_steps l)
qed

subsection \<open>The handlers, field by field\<close>

lemma visible_spec:
  "getVisibleTodos w = spec_filter (heap w) (todos (state w)) (hideCompleted (state w))"
  by (simp add: getVisibleTodos_def spec_filter_def)

lemma createLi_spec: "createLi h = spec_row h"
  by (rule ext) (simp add: createLi_def spec_row_def)

lemma rendered_render:
  "rendered (page (render w)) = spec_render (state w) (heap w)"
  by (simp add: rendered_def render_page spec_render_def Let_def createLi_spec visible_spec
      getFormClassName_def getHelperMessage_def innerHTML_of_def)

lemma in_sync_render: "in_sync (render w)"
  by (simp add: in_sync_def rendered_render render_frame)

lemma handleSubmit_empty:
  "textEl_value (page w) = '''' \<Longrightarrow>
     handleSubmit w = w\<lparr>trace := trace w @ [PreventDefault, StopPropagation]\<rparr>"
  by (simp add: handleSubmit_def Let_def emit_def)

lemma handleSubmit_nonempty:
  "textEl_value (page w) \<noteq> '''' \<Longrightarrow>
     handleSubmit w = textEl_focus (set_textEl_value '''' (render
        (todos_push (textEl_value (page w)) (emit StopPropagation (emit PreventDefault w)))))"
  by (simp add: handleSubmit_def Let_def emit_simps)

lemma input_frame:
  "state (textEl_focus w) = state w" "heap (textEl_focus w) = heap w"
  "fresh (textEl_focus w) = fresh w"
  "rendered (page (textEl_focus w)) = rendered (page w)"
  "state (set_textEl_value v w) = state w" "heap (set_textEl_value v w) = heap w"
  "fresh (set_textEl_value v w) = fresh w"
  "rendered (page (set_textEl_value v w)) = rendered (page w)"
  by (simp_all add: textEl_focus_def set_textEl_value_def emit_simps rendered_def)

lemma todos_push_simps:
  "state (todos_push v w) = (state w)\<lparr>todos := todos (state w) @ [fresh w]\<rparr>"
  "heap (todos_push v w) = (heap w)(fresh w := \<lparr>item_text = v, completed = False\<rparr>)"
  "fresh (todos_push v w) = Suc (fresh w)"
  "page (todos_push v w) = page w"
  "trace (todos_push v w) = trace w @ [TodosPush (fresh w)]"
  by (simp_all add: todos_push_def Let_def emit_simps)

lemma in_sync_handleSubmit:
  "textEl_value (page w) \<noteq> '''' \<Longrightarrow> in_sync (handleSubmit w)"
  by (simp add: handleSubmit_nonempty in_sync_def input_frame rendered_render render_frame)

lemma in_sync_li_click: "in_sync (li_click item w)"
  by (simp add: li_click_def Let_def in_sync_render)

lemma in_sync_handleForm: "in_sync (handleForm w)"
  by (simp add: handleForm_def Let_def in_sync_render)

lemma in_sync_handleHide: "in_sync (handleHide w)"
  by (simp add: handleHide_def Let_def in_sync_render)

lemma in_sync_dispatch: "in_sync w \<Longrightarrow> in_sync (dispatch ev w)"
proof (cases ev)
  case Submit
  assume "in_sync w"
  then show ?thesis
    using Submit in_sync_handleSubmit [of w]
    by (cases "textEl_value (page w) = ''''") (simp_all add: handleSubmit_empty in_sync_def)
qed (simp_all add: in_sync_li_click in_sync_handleForm in_sync_handleHide)

lemmas run_defs =
  seed_typed_def seed_hidden_def start_def loaded_def seed_state_def seed_heap_def
  blank_page_def host_input_def handleSubmit_def handleForm_def handleHide_def li_click_def
  todos_push_def set_textEl_value_def textEl_focus_def render_def renderDOMHelperMessage_def
  renderDOMFormStatus_def renderDOMList_def renderDOMListItem_def resetDOMList_def
  getHelperMessage_def getFormClassName_def innerHTML_of_def createLi_def getVisibleTodos_def
  emit_def Let_def

lemmas spec_defs =
  in_sync_def rendered_def spec_render_def spec_row_def spec_filter_def heap_ok_def well_formed_def
  items_def

lemma handler_frame:
  "state (handleHide w) = (state w)\<lparr>hideCompleted := checkbox_checked (page w)\<rparr>"
  "heap (handleHide w) = heap w" "fresh (handleHide w) = fresh w"
  "state (handleForm w) = (state w)\<lparr>formIsValid := 0 < length (textEl_value (page w))\<rparr>"
  "heap (handleForm w) = heap w" "fresh (handleForm w) = fresh w"
  "state (li_click item w) = state w"
  "heap (li_click item w) = (heap w)(item := (heap w item)\<lparr>completed := \<not> completed (heap w item)\<rparr>)"
  "fresh (li_click item w) = fresh w"
  by (simp_all add: handleHide_def handleForm_def li_click_def Let_def render_frame emit_simps)

lemma handleSubmit_frame:
  assumes "textEl_value (page w) \<noteq> ''''"
  shows "state (handleSubmit w) = (state w)\<lparr>todos := todos (state w) @ [fresh w]\<rparr>"
    and "heap (handleSubmit w)
           = (heap w)(fresh w := \<lparr>item_text = textEl_value (page w), completed = False\<rparr>)"
    and "fresh (handleSubmit w) = Suc (fresh w)"
  using assms
  by (simp_all add: handleSubmit_nonempty input_frame render_frame todos_push_simps emit_simps)

lemma items_push:
  assumes "heap_ok w"
  shows "map ((heap w)(fresh w := x)) (todos (state w)) = map (heap w) (todos (state w))"
proof (rule map_cong [OF refl])
  fix a assume "a \<in> set (todos (state w))"
  with assms have "a < fresh w" by (simp add: heap_ok_def list_all_iff)
  then show "((heap w)(fresh w := x)) a = heap w a" by simp
qed

lemma heap_ok_handleSubmit: "heap_ok w \<Longrightarrow> heap_ok (handleSubmit w)"
proof (cases "textEl_value (page w) = ''''")
  case True
  assume "heap_ok w" with True show ?thesis by (simp add: handleSubmit_empty heap_ok_def)
next
  case False
  assume "heap_ok w"
  then show ?thesis
    by (auto simp: heap_ok_def handleSubmit_frame [OF False] list_all_iff less_Suc_eq)
qed

lemma heap_ok_dispatch: "heap_ok w \<Longrightarrow> heap_ok (dispatch ev w)"
proof (cases ev)
  case Submit
  assume "heap_ok w" with Submit show ?thesis by (simp add: heap_ok_handleSubmit)
qed (simp_all add: heap_ok_def handler_frame)

lemma well_formed_start: "well_formed (start html)"
  by (simp add: well_formed_def start_def in_sync_render heap_ok_def render_frame loaded_def
      seed_state_def)

lemma reachable_well_formed: "reachable w \<Longrightarrow> well_formed w"
proof (induction rule: reachable.induct)
  case (reachable_start html)
  show ?case by (rule well_formed_start)
next
  case (reachable_event w ev)
  then show ?case by (simp add: well_formed_def heap_ok_dispatch in_sync_dispatch)
next
  case (reachable_input w v f c)
  then show ?case by (simp add: well_formed_def heap_ok_def in_sync_def rendered_def host_input_def)
qed

subsection \<open>The seed worlds\<close>

lemma sync_rows:
  "in_sync w \<Longrightarrow>
     ul (page w) = map (createLi (heap w)) (getVisibleTodos w)"
  by (simp add: in_sync_def rendered_def spec_render_def Let_def createLi_spec visible_spec)

lemma start_frame:
  "state (start html) = seed_state" "heap (start html) = seed_heap" "fresh (start html) = 3"
  by (simp_all add: start_def render_frame loaded_def)

lemma in_sync_start: "in_sync (start html)"
  by (simp add: start_def in_sync_render)

lemma seed_hidden_frame:
  "state seed_hidden = \<lparr>hideCompleted = True, formIsValid = False, todos = [0, 1, 2]\<rparr>"
  "heap seed_hidden = seed_heap" "fresh seed_hidden = 3"
  by (simp_all add: seed_hidden_def handler_frame host_input_def start_frame seed_state_def)

lemma in_sync_seed_hidden: "in_sync seed_hidden"
  by (simp add: seed_hidden_def in_sync_handleHide)

lemma seed_hidden_visible: "getVisibleTodos seed_hidden = [1, 2]"
  by (simp add: getVisibleTodos_def seed_hidden_frame seed_heap_def)

lemma seed_hidden_rows:
  "ul (page seed_hidden) =
     [\<lparr>textNode = ''clean kitchen'', className = '''', click_item = 1\<rparr>,
      \<lparr>textNode = ''learn js'', className = '''', click_item = 2\<rparr>]"
  by (simp add: sync_rows [OF in_sync_seed_hidden] seed_hidden_visible createLi_def
      seed_hidden_frame seed_heap_def)

lemma start_rows:
  "ul (page (start html)) =
     [\<lparr>textNode = ''buy milk'', className = ''is-done'', click_item = 0\<rparr>,
      \<lparr>textNode = ''clean kitchen'', className = '''', click_item = 1\<rparr>,
      \<lparr>textNode = ''learn js'', className = '''', click_item = 2\<rparr>]"
  by (simp add: sync_rows [OF in_sync_start] getVisibleTodos_def createLi_def
      start_frame seed_heap_def seed_state_def)

lemma visible_handleForm: "getVisibleTodos (handleForm w) = getVisibleTodos w"
  by (simp add: getVisibleTodos_def handler_frame)

lemma handleForm_page:
  "page (handleForm w) =
     (page w)\<lparr>ul := map (createLi (heap w)) (getVisibleTodos w),
              form_className := (if 0 < length (textEl_value (page w)) then ''is-valid'' else ''''),
              pre_innerHTML := innerHTML_of (getHelperMessage w)\<rparr>"
proof -
  let ?u = "emit (SetFormIsValid (0 < length (textEl_value (page w))))
      (w\<lparr>state := (state w)\<lparr>formIsValid := 0 < length (textEl_value (page w))\<rparr>\<rparr>)"
  have e: "handleForm w = render ?u" by (simp add: handleForm_def Let_def)
  have g: "getVisibleTodos ?u = getVisibleTodos w"
    by (simp add: getVisibleTodos_def emit_simps)
  show ?thesis
    unfolding e render_page getHelperMessage_def g
    by (simp add: emit_simps getFormClassName_def)
qed

lemma handleSubmit_page:
  assumes "textEl_value (page w) \<noteq> ''''"
  shows "page (handleSubmit w) =
     (page w)\<lparr>ul := map (createLi (heap (handleSubmit w))) (getVisibleTodos (handleSubmit w)),
              form_className := getFormClassName w,
              pre_innerHTML := innerHTML_of (getHelperMessage (handleSubmit w)),
              textEl_value := '''',
              textEl_focused := True\<rparr>"
proof -
  let ?u = "todos_push (textEl_value (page w)) (emit StopPropagation (emit PreventDefault w))"
  have g: "getVisibleTodos (handleSubmit w) = getVisibleTodos ?u"
    by (rule getVisibleTodos_cong)
       (simp_all add: handleSubmit_nonempty [OF assms] input_frame render_frame)
  have h: "heap (handleSubmit w) = heap ?u"
    by (simp add: handleSubmit_nonempty [OF assms] input_frame render_frame)
  have f: "getFormClassName ?u = getFormClassName w"
    by (simp add: getFormClassName_def todos_push_simps emit_simps)
  show ?thesis
    unfolding getHelperMessage_def g h
    by (simp add: handleSubmit_nonempty [OF assms] textEl_focus_def set_textEl_value_def
        emit_simps render_page f getHelperMessage_def todos_push_simps)
qed

lemma handleSubmit_trace:
  assumes "textEl_value (page w) \<noteq> ''''"
  shows "trace (handleSubmit w) =
     trace w @ [PreventDefault, StopPropagation, TodosPush (fresh w), RemoveListItems]
       @ map (\<lambda>a. AppendListItem (createLi (heap (handleSubmit w)) a))
           (getVisibleTodos (handleSubmit w))
       @ [SetFormClassName (getFormClassName w),
          SetHelperHTML (innerHTML_of (getHelperMessage (handleSubmit w))),
          SetInputValue '''', FocusInput]"
proof -
  let ?u = "todos_push (textEl_value (page w)) (emit StopPropagation (emit PreventDefault w))"
  have g: "getVisibleTodos (handleSubmit w) = getVisibleTodos ?u"
    by (rule getVisibleTodos_cong)
       (simp_all add: handleSubmit_nonempty [OF assms] input_frame render_frame)
  have h: "heap (handleSubmit w) = heap ?u"
    by (simp add: handleSubmit_nonempty [OF assms] input_frame render_frame)
  have f: "getFormClassName ?u = getFormClassName w"
    by (simp add: getFormClassName_def todos_push_simps emit_simps)
  show ?thesis
    unfolding getHelperMessage_def g h
    by (simp add: handleSubmit_nonempty [OF assms] textEl_focus_def set_textEl_value_def
        emit_simps render_trace f getHelperMessage_def todos_push_simps)
qed

lemma items_handleSubmit:
  assumes "heap_ok w" and "textEl_value (page w) \<noteq> ''''"
  shows "items (handleSubmit w)
           = items w @ [\<lparr>item_text = textEl_value (page w), completed = False\<rparr>]"
  by (simp add: items_def handleSubmit_frame [OF assms(2)] items_push [OF assms(1)])

lemma heap_ok_seed_typed: "heap_ok (seed_typed v)"
  by (simp add: heap_ok_def seed_typed_def host_input_def start_frame seed_state_def)

lemma items_seed_typed:
  "items (seed_typed v) =
     [\<lparr>item_text = ''buy milk'', completed = True\<rparr>,
      \<lparr>item_text = ''clean kitchen'', completed = False\<rparr>,
      \<lparr>item_text = ''learn js'', completed = False\<rparr>]"
  by (simp add: items_def seed_typed_def host_input_def start_frame seed_state_def
      seed_heap_def)

subsection \<open>Lists changed at one position\<close>

lemma map_changed_at_one:
  assumes "distinct xs" and "i < length xs" and "\<And>b. b \<noteq> xs ! i \<Longrightarrow> g b = f b"
  shows "map g xs = (map f xs)[i := g (xs ! i)]"
proof (rule nth_equalityI)
  show "length (map g xs) = length ((map f xs)[i := g (xs ! i)])" by simp
next
  fix j assume "j < length (map g xs)"
  then have j: "j < length xs" by simp
  show "map g xs ! j = (map f xs)[i := g (xs ! i)] ! j"
  proof (cases "j = i")
    case True
    with assms(2) show ?thesis by simp
  next
    case False
    with assms(1,2) j have "xs ! j \<noteq> xs ! i" by (simp add: nth_eq_iff_index_eq)
    with assms(3) False j show ?thesis by simp
  qed
qed

lemma filter_out_nth:
  assumes "distinct xs" and "i < length xs"
  shows "filter (\<lambda>b. b \<noteq> xs ! i) xs = take i xs @ drop (Suc i) xs"
proof -
  have xs: "xs = take i xs @ xs ! i # drop (Suc i) xs"
    using assms(2) by (simp add: id_take_nth_drop [symmetric])
  have d: "distinct (take i xs @ xs ! i # drop (Suc i) xs)"
    using assms(1) xs by simp
  then have n: "xs ! i \<notin> set (take i xs)" "xs ! i \<notin> set (drop (Suc i) xs)" by auto
  have t: "filter (\<lambda>b. b \<noteq> xs ! i) (take i xs) = take i xs"
    using n(1) by (auto simp: filter_id_conv)
  have r: "filter (\<lambda>b. b \<noteq> xs ! i) (drop (Suc i) xs) = drop (Suc i) xs"
    using n(2) by (auto simp: filter_id_conv)
  have "filter (\<lambda>b. b \<noteq> xs ! i) (take i xs @ xs ! i # drop (Suc i) xs)
      = take i xs @ drop (Suc i) xs"
    by (simp add: t r)
  with xs show ?thesis by simp
qed

lemma clicked_row:
  assumes "in_sync w" and "i < length (ul (page w))"
  shows "i < length (getVisibleTodos w)"
    and "click_item (ul (page w) ! i) = getVisibleTodos w ! i"
    and "ul (page w) ! i = createLi (heap w) (getVisibleTodos w ! i)"
    and "getVisibleTodos w ! i \<in> set (todos (state w))"
proof -
  from assms show l: "i < length (getVisibleTodos w)" by (simp add: sync_rows)
  with assms show "click_item (ul (page w) ! i) = getVisibleTodos w ! i"
    by (simp add: sync_rows createLi_def)
  from l assms show "ul (page w) ! i = createLi (heap w) (getVisibleTodos w ! i)"
    by (simp add: sync_rows)
  from l have "getVisibleTodos w ! i \<in> set (getVisibleTodos w)" by simp
  then show "getVisibleTodos w ! i \<in> set (todos (state w))"
    by (simp add: getVisibleTodos_def)
qed

lemma li_click_rows:
  "ul (page (li_click a w)) = map (createLi (heap (li_click a w))) (getVisibleTodos (li_click a w))"
  by (rule sync_rows [OF in_sync_li_click])

lemma li_click_visible_shown:
  assumes "\<not> hideCompleted (state w)"
  shows "getVisibleTodos (li_click a w) = todos (state w)"
    and "getVisibleTodos w = todos (state w)"
  using assms by (simp_all add: getVisibleTodos_def handler_frame)

lemma li_click_visible_hidden:
  assumes "hideCompleted (state w)" and "\<not> completed (heap w a)"
  shows "getVisibleTodos (li_click a w) = filter (\<lambda>b. b \<noteq> a) (getVisibleTodos w)"
  using assms by (auto simp: getVisibleTodos_def handler_frame intro: filter_cong)

lemma createLi_other:
  "b \<noteq> a \<Longrightarrow> createLi (h(a := x)) b = createLi h b"
  by (simp add: createLi_def)

lemma li_click_shown:
  assumes "well_formed w" and "i < length (ul (page w))" and "\<not> hideCompleted (state w)"
  shows "ul (page (li_click (click_item (ul (page w) ! i)) w))
      = (ul (page w))[i := createLi (heap (li_click (click_item (ul (page w) ! i)) w))
                              (click_item (ul (page w) ! i))]"
proof -
  let ?a = "click_item (ul (page w) ! i)"
  from assms(1) have s: "in_sync w" and d: "distinct (todos (state w))"
    by (simp_all add: well_formed_def heap_ok_def)
  have v: "getVisibleTodos w = todos (state w)"
    by (rule li_click_visible_shown(2) [OF assms(3)])
  have l: "i < length (todos (state w))"
    using clicked_row(1) [OF s assms(2)] v by simp
  have a: "?a = todos (state w) ! i"
    using clicked_row(2) [OF s assms(2)] v by simp
  have "map (createLi (heap (li_click ?a w))) (todos (state w))
      = (map (createLi (heap w)) (todos (state w)))
          [i := createLi (heap (li_click ?a w)) (todos (state w) ! i)]"
  proof (rule map_changed_at_one [OF d l])
    fix b assume "b \<noteq> todos (state w) ! i"
    then show "createLi (heap (li_click ?a w)) b = createLi (heap w) b"
      by (simp add: handler_frame a createLi_other)
  qed
  then show ?thesis
    by (simp add: li_click_rows li_click_visible_shown(1) [OF assms(3)] sync_rows [OF s] v
        a [symmetric])
qed

lemma li_click_hidden:
  assumes "well_formed w" and "i < length (ul (page w))" and "hideCompleted (state w)"
  shows "ul (page (li_click (click_item (ul (page w) ! i)) w))
      = take i (ul (page w)) @ drop (Suc i) (ul (page w))"
proof -
  let ?a = "click_item (ul (page w) ! i)"
  let ?vis = "getVisibleTodos w"
  from assms(1) have s: "in_sync w" and d: "distinct (todos (state w))"
    by (simp_all add: well_formed_def heap_ok_def)
  have dv: "distinct ?vis" using d by (simp add: getVisibleTodos_def)
  have l: "i < length ?vis" by (rule clicked_row(1) [OF s assms(2)])
  have a: "?a = ?vis ! i" by (rule clicked_row(2) [OF s assms(2)])
  have "?vis ! i \<in> set ?vis" using l by simp
  then have nc: "\<not> completed (heap w ?a)"
    using assms(3) by (simp add: a getVisibleTodos_def)
  have v': "getVisibleTodos (li_click ?a w) = take i ?vis @ drop (Suc i) ?vis"
    using li_click_visible_hidden [OF assms(3) nc] filter_out_nth [OF dv l] a by simp
  have n: "?a \<notin> set (take i ?vis @ drop (Suc i) ?vis)"
    using filter_out_nth [OF dv l, symmetric] a by simp
  have c: "map (createLi (heap (li_click ?a w))) (take i ?vis @ drop (Suc i) ?vis)
      = map (createLi (heap w)) (take i ?vis @ drop (Suc i) ?vis)"
  proof (rule map_cong [OF refl])
    fix b assume "b \<in> set (take i ?vis @ drop (Suc i) ?vis)"
    with n have "b \<noteq> ?a" by blast
    then show "createLi (heap (li_click ?a w)) b = createLi (heap w) b"
      by (simp add: handler_frame createLi_other)
  qed
  have "ul (page (li_click ?a w))
      = map (createLi (heap (li_click ?a w))) (take i ?vis @ drop (Suc i) ?vis)"
    by (simp only: li_click_rows v')
  also have "\<dots> = map (createLi (heap w)) (take i ?vis @ drop (Suc i) ?vis)"
    by (rule c)
  also have "\<dots> = take i (ul (page w)) @ drop (Suc i) (ul (page w))"
    by (simp add: sync_rows [OF s] take_map drop_map)
  finally show ?thesis .
qed

lemma li_click_items:
  assumes "distinct (todos (state w))" and "j < length (todos (state w))"
  shows "items (li_click (todos (state w) ! j) w)
      = (items w)[j := (items w ! j)\<lparr>completed := \<not> completed (items w ! j)\<rparr>]"
proof -
  let ?a = "todos (state w) ! j"
  have "map (heap (li_click ?a w)) (todos (state w))
      = (map (heap w) (todos (state w)))[j := heap (li_click ?a w) ?a]"
    by (rule map_changed_at_one [OF assms]) (simp add: handler_frame)
  then show ?thesis
    using assms(2) by (simp add: items_def handler_frame)
qed

lemma well_formed_seed_hidden: "well_formed seed_hidden"
  by (simp add: well_formed_def in_sync_seed_hidden heap_ok_def seed_hidden_frame)

lemma seed_hidden_click:
  "dispatch (ItemClick 0) seed_hidden = li_click 1 seed_hidden"
  by (simp add: seed_hidden_rows)

lemma seed_hidden_click_rows:
  "ul (page (li_click 1 seed_hidden)) =
     [\<lparr>textNode = ''learn js'', className = '''', click_item = 2\<rparr>]"
  by (simp add: li_click_rows getVisibleTodos_def handler_frame seed_hidden_frame seed_heap_def
      createLi_def)

subsection \<open>The view after a handler\<close>

text \<open>
  Claim C1. After the state mutation of each handler (a submitted item, a toggled item, a
  keystroke, a click on the checkbox) the rows, the helper message and the class of the
  form on the page are exactly the view the specification computes from the state and the
  items as the handler leaves them. A submission of the empty text mutates nothing and
  renders nothing, so a page that showed the state before any event shows it after.
\<close>

theorem view_is_projection_after_every_handler:
  "(textEl_value (page w) \<noteq> '''' \<longrightarrow>
      rendered (page (handleSubmit w)) = spec_render (state (handleSubmit w)) (heap (handleSubmit w)))
   \<and> rendered (page (li_click item w)) = spec_render (state (li_click item w)) (heap (li_click item w))
   \<and> rendered (page (handleForm w)) = spec_render (state (handleForm w)) (heap (handleForm w))
   \<and> rendered (page (handleHide w)) = spec_render (state (handleHide w)) (heap (handleHide w))
   \<and> (in_sync w \<longrightarrow> in_sync (dispatch ev w))"
  using in_sync_handleSubmit [of w] in_sync_li_click [of item w] in_sync_handleForm [of w]
    in_sync_handleHide [of w] in_sync_dispatch [of w ev]
  by (simp add: in_sync_def)

theorem view_is_projection_witness:
  "textEl_value (page (seed_typed ''buy eggs'')) \<noteq> ''''
   \<and> in_sync (seed_typed ''buy eggs'')
   \<and> rendered (page (handleSubmit (seed_typed ''buy eggs''))) =
       \<lparr>view_rows =
          [\<lparr>textNode = ''buy milk'', className = ''is-done'', click_item = 0\<rparr>,
           \<lparr>textNode = ''clean kitchen'', className = '''', click_item = 1\<rparr>,
           \<lparr>textNode = ''learn js'', className = '''', click_item = 2\<rparr>,
           \<lparr>textNode = ''buy eggs'', className = '''', click_item = 3\<rparr>],
        view_helper = '''', view_form = ''''\<rparr>
   \<and> in_sync (dispatch Submit (seed_typed ''buy eggs''))"
proof -
  have v: "textEl_value (page (seed_typed ''buy eggs'')) \<noteq> ''''"
    by (simp add: run_defs)
  have s: "in_sync (seed_typed ''buy eggs'')"
    by (simp add: run_defs spec_defs)
  have e: "spec_render (state (handleSubmit (seed_typed ''buy eggs'')))
             (heap (handleSubmit (seed_typed ''buy eggs''))) =
       \<lparr>view_rows =
          [\<lparr>textNode = ''buy milk'', className = ''is-done'', click_item = 0\<rparr>,
           \<lparr>textNode = ''clean kitchen'', className = '''', click_item = 1\<rparr>,
           \<lparr>textNode = ''learn js'', className = '''', click_item = 2\<rparr>,
           \<lparr>textNode = ''buy eggs'', className = '''', click_item = 3\<rparr>],
        view_helper = '''', view_form = ''''\<rparr>"
    by (simp add: run_defs spec_defs)
  show ?thesis
    using view_is_projection_after_every_handler [of "seed_typed ''buy eggs''" 0 Submit] v s e
    by simp
qed

subsection \<open>The visible items\<close>

text \<open>
  Claim C2. In every state the items \<^verbatim>\<open>getVisibleTodos\<close> returns are the items of
  \<^verbatim>\<open>state.todos\<close> with \<^verbatim>\<open>hideCompleted == false\<close> or \<^verbatim>\<open>completed == false\<close>, in the
  order of the list: the same holds of the item records, the result is a subsequence of
  the list, and the rows \<^verbatim>\<open>render\<close> draws are built from exactly these items.
\<close>

theorem visible_items_exact:
  "getVisibleTodos w =
     filter (\<lambda>item. hideCompleted (state w) = False \<or> completed (heap w item) = False)
       (todos (state w))
   \<and> map (heap w) (getVisibleTodos w) =
       filter (\<lambda>it. hideCompleted (state w) = False \<or> completed it = False) (items w)
   \<and> subseq (getVisibleTodos w) (todos (state w))
   \<and> ul (page (render w)) = map (createLi (heap w)) (getVisibleTodos w)"
proof -
  have a: "getVisibleTodos w =
     filter (\<lambda>item. hideCompleted (state w) = False \<or> completed (heap w item) = False)
       (todos (state w))"
    by (simp add: getVisibleTodos_def)
  have b: "map (heap w) (getVisibleTodos w) =
       filter (\<lambda>it. hideCompleted (state w) = False \<or> completed it = False) (items w)"
    by (simp add: a items_def filter_map comp_def)
  have c: "subseq (getVisibleTodos w) (todos (state w))"
    by (simp add: getVisibleTodos_def)
  have d: "ul (page (render w)) = map (createLi (heap w)) (getVisibleTodos w)"
    by (simp add: render_page)
  from a b c d show ?thesis by blast
qed

theorem visible_items_witness:
  "getVisibleTodos seed_hidden = [1, 2]
   \<and> map (\<lambda>a. item_text (heap seed_hidden a)) (getVisibleTodos seed_hidden)
       = [''clean kitchen'', ''learn js'']
   \<and> map textNode (ul (page (render seed_hidden))) = [''clean kitchen'', ''learn js'']"
proof -
  have s: "state seed_hidden = \<lparr>hideCompleted = True, formIsValid = False, todos = [0, 1, 2]\<rparr>"
    by (simp add: seed_hidden_def handler_frame host_input_def start_def render_frame
        loaded_def seed_state_def blank_page_def)
  have h: "heap seed_hidden = seed_heap"
    by (simp add: seed_hidden_def handler_frame host_input_def start_def render_frame
        loaded_def)
  show ?thesis
    using visible_items_exact [of seed_hidden]
    by (simp add: s h seed_heap_def createLi_def)
qed

subsection \<open>Submitting the empty text\<close>

text \<open>
  Claim C3. A submission while the text input is empty leaves the list of items as it
  was, in length and in contents; the state, the store and the page are unchanged, so
  nothing is shown to the user, and the handler returns a result in every state.
\<close>

theorem empty_submit_keeps_items:
  "textEl_value (page w) = '''' \<Longrightarrow>
     todos (state (handleSubmit w)) = todos (state w)
     \<and> items (handleSubmit w) = items w
     \<and> length (items (handleSubmit w)) = length (items w)
     \<and> state (handleSubmit w) = state w
     \<and> heap (handleSubmit w) = heap w
     \<and> page (handleSubmit w) = page w"
  by (simp add: handleSubmit_empty items_def)

theorem empty_submit_keeps_items_witness:
  "textEl_value (page (seed_typed '''')) = ''''
   \<and> items (handleSubmit (seed_typed '''')) =
       [\<lparr>item_text = ''buy milk'', completed = True\<rparr>,
        \<lparr>item_text = ''clean kitchen'', completed = False\<rparr>,
        \<lparr>item_text = ''learn js'', completed = False\<rparr>]"
proof -
  have v: "textEl_value (page (seed_typed '''')) = ''''"
    by (simp add: seed_typed_def host_input_def)
  have i: "items (seed_typed '''') =
       [\<lparr>item_text = ''buy milk'', completed = True\<rparr>,
        \<lparr>item_text = ''clean kitchen'', completed = False\<rparr>,
        \<lparr>item_text = ''learn js'', completed = False\<rparr>]"
    by (simp add: items_def seed_typed_def host_input_def start_def render_frame loaded_def
        seed_state_def seed_heap_def)
  show ?thesis
    using empty_submit_keeps_items [OF v] v i by simp
qed

text \<open>
  Claim C10. On the empty submission the handler returns after the two calls on the
  event: the world is the one before but for these two entries of the trace. No effect of
  \<^verbatim>\<open>render\<close> is performed, and the input keeps its value and its focus.
\<close>

theorem empty_submit_touches_nothing:
  "textEl_value (page w) = '''' \<Longrightarrow>
     handleSubmit w = w\<lparr>trace := trace w @ [PreventDefault, StopPropagation]\<rparr>
     \<and> state (handleSubmit w) = state w
     \<and> heap (handleSubmit w) = heap w
     \<and> page (handleSubmit w) = page w
     \<and> textEl_value (page (handleSubmit w)) = ''''
     \<and> textEl_focused (page (handleSubmit w)) = textEl_focused (page w)
     \<and> rendered (page (handleSubmit w)) = rendered (page w)"
  by (simp add: handleSubmit_empty)


theorem empty_submit_touches_nothing_witness:
  "textEl_value (page (host_input '''' False False (start blank_page))) = ''''
   \<and> textEl_focused (page (handleSubmit (host_input '''' False False (start blank_page)))) = False
   \<and> trace (handleSubmit (host_input '''' False False (start blank_page)))
       = trace (start blank_page) @ [PreventDefault, StopPropagation]"
proof -
  have v: "textEl_value (page (host_input '''' False False (start blank_page))) = ''''"
    by (simp add: host_input_def)
  show ?thesis
    using empty_submit_touches_nothing [OF v] v by (simp add: host_input_def)
qed

subsection \<open>The helper message\<close>

text \<open>
  Claim C6. When no item is visible the helper message is the fixed, non-empty string
  \<^verbatim>\<open>Create your first task!\<close>, and \<^verbatim>\<open>render\<close> writes it to the page; when at least one
  item is visible the message is \<^verbatim>\<open>null\<close> and the element is left empty.
\<close>

theorem helper_message_iff_nothing_visible:
  "(length (getVisibleTodos w) = 0 \<longrightarrow>
      getHelperMessage w = Some ''Create your first task!''
      \<and> pre_innerHTML (page (render w)) = ''Create your first task!'')
   \<and> (1 \<le> length (getVisibleTodos w) \<longrightarrow>
      getHelperMessage w = None \<and> pre_innerHTML (page (render w)) = '''')
   \<and> ''Create your first task!'' \<noteq> ''''"
  by (simp add: getHelperMessage_def render_page innerHTML_of_def)

theorem helper_message_witness:
  "length (getVisibleTodos (li_click 2 (li_click 1 seed_hidden))) = 0
   \<and> pre_innerHTML (page (render (li_click 2 (li_click 1 seed_hidden)))) = ''Create your first task!''
   \<and> 1 \<le> length (getVisibleTodos seed_hidden)
   \<and> pre_innerHTML (page (render seed_hidden)) = ''''"
proof -
  have a: "getVisibleTodos (li_click 2 (li_click 1 seed_hidden)) = []"
    by (simp add: getVisibleTodos_def handler_frame seed_hidden_def host_input_def start_def
        render_frame loaded_def seed_state_def seed_heap_def blank_page_def)
  have b: "getVisibleTodos seed_hidden = [1, 2]"
    by (simp add: getVisibleTodos_def handler_frame seed_hidden_def host_input_def start_def
        render_frame loaded_def seed_state_def seed_heap_def blank_page_def)
  show ?thesis
    using helper_message_iff_nothing_visible [of "li_click 2 (li_click 1 seed_hidden)"]
      helper_message_iff_nothing_visible [of seed_hidden] a b
    by simp
qed

subsection \<open>The filter handler\<close>

text \<open>
  Claim C7. \<^verbatim>\<open>handleHide\<close> sets \<^verbatim>\<open>hideCompleted\<close> to the checked value of the checkbox
  and changes nothing else of the state: the list keeps its elements, their order and its
  length, and every item keeps its fields.
\<close>

theorem handleHide_changes_the_flag_only:
  "hideCompleted (state (handleHide w)) = checkbox_checked (page w)
   \<and> state (handleHide w) = (state w)\<lparr>hideCompleted := checkbox_checked (page w)\<rparr>
   \<and> todos (state (handleHide w)) = todos (state w)
   \<and> formIsValid (state (handleHide w)) = formIsValid (state w)
   \<and> heap (handleHide w) = heap w
   \<and> items (handleHide w) = items w
   \<and> length (items (handleHide w)) = length (items w)"
  by (simp add: handler_frame items_def)

theorem handleHide_witness:
  "hideCompleted (state seed_hidden) = True
   \<and> items seed_hidden = items (start blank_page)
   \<and> map textNode (ul (page seed_hidden)) = [''clean kitchen'', ''learn js'']
   \<and> map textNode (ul (page (start blank_page))) = [''buy milk'', ''clean kitchen'', ''learn js'']"
proof -
  have r: "map textNode (ul (page seed_hidden)) = [''clean kitchen'', ''learn js'']"
    "map textNode (ul (page (start blank_page))) = [''buy milk'', ''clean kitchen'', ''learn js'']"
    by (simp_all add: seed_hidden_rows start_rows)
  show ?thesis
    using handleHide_changes_the_flag_only [of "host_input '''' False True (start blank_page)"] r
    by (simp add: seed_hidden_def host_input_def items_def)
qed

subsection \<open>The validity handler\<close>

text \<open>
  Claim C8. \<^verbatim>\<open>handleForm\<close> sets \<^verbatim>\<open>formIsValid\<close> to whether the value of the text input
  has a positive length, whatever the state was, and renders: the page shows the new state
  and the form carries the class accordingly. Run a second time on the same value it
  leaves the state, the store and the page as the first run left them. It returns a result
  in every state.
\<close>

theorem handleForm_validity:
  "formIsValid (state (handleForm w)) = (length (textEl_value (page w)) > 0)
   \<and> state (handleForm w) = (state w)\<lparr>formIsValid := length (textEl_value (page w)) > 0\<rparr>
   \<and> heap (handleForm w) = heap w
   \<and> form_className (page (handleForm w))
       = (if length (textEl_value (page w)) > 0 then ''is-valid'' else '''')
   \<and> rendered (page (handleForm w)) = spec_render (state (handleForm w)) (heap (handleForm w))
   \<and> state (handleForm (handleForm w)) = state (handleForm w)
   \<and> heap (handleForm (handleForm w)) = heap (handleForm w)
   \<and> page (handleForm (handleForm w)) = page (handleForm w)"
proof -
  have v: "textEl_value (page (handleForm w)) = textEl_value (page w)"
    by (simp add: handleForm_page)
  have s: "state (handleForm (handleForm w)) = state (handleForm w)"
    unfolding handler_frame v by simp
  have pp: "page (handleForm (handleForm w)) = page (handleForm w)"
    unfolding handleForm_page [of "handleForm w"] getHelperMessage_def visible_handleForm
      handler_frame v
    by (simp add: handleForm_page getHelperMessage_def)
  have c: "form_className (page (handleForm w))
       = (if length (textEl_value (page w)) > 0 then ''is-valid'' else '''')"
    by (simp add: handleForm_page)
  show ?thesis
    using in_sync_handleForm [of w] s pp c by (simp add: handler_frame in_sync_def)
qed

theorem handleForm_validity_witness:
  "formIsValid (state (handleForm (seed_typed ''a''))) = True
   \<and> form_className (page (handleForm (seed_typed ''a''))) = ''is-valid''
   \<and> formIsValid (state (handleForm (seed_typed ''''))) = False
   \<and> form_className (page (handleForm (seed_typed ''''))) = ''''
   \<and> page (handleForm (handleForm (seed_typed ''a''))) = page (handleForm (seed_typed ''a''))"
  using handleForm_validity [of "seed_typed ''a''"] handleForm_validity [of "seed_typed ''''"]
  by (simp add: seed_typed_def host_input_def)

subsection \<open>Submitting a text\<close>

text \<open>
  Claim C4. A submission of a non-empty text \<open>v\<close> appends the record
  \<^verbatim>\<open>{text: v, completed: false}\<close> as the last item and leaves the items before it as they
  were; the render that follows draws the new item as the last row. The input is cleared
  and focused at the end: in the trace of the handler the write of the empty value comes
  after the push and after every effect of \<^verbatim>\<open>render\<close>. The hypothesis \<open>heap_ok\<close> says
  that the items of the list are distinct objects allocated before the new one; it holds
  in every world the script reaches (\<open>reachable_well_formed\<close>).
\<close>

theorem submit_appends_then_clears:
  assumes "heap_ok w" and "textEl_value (page w) = v" and "v \<noteq> ''''"
  shows "items (handleSubmit w) = items w @ [\<lparr>item_text = v, completed = False\<rparr>]
    \<and> last (items (handleSubmit w)) = \<lparr>item_text = v, completed = False\<rparr>
    \<and> todos (state (handleSubmit w)) = todos (state w) @ [fresh w]
    \<and> last (ul (page (handleSubmit w))) = \<lparr>textNode = v, className = '''', click_item = fresh w\<rparr>
    \<and> textEl_value (page (handleSubmit w)) = ''''
    \<and> textEl_focused (page (handleSubmit w)) = True
    \<and> trace (handleSubmit w) =
         trace w @ [PreventDefault, StopPropagation, TodosPush (fresh w), RemoveListItems]
           @ map (\<lambda>a. AppendListItem (createLi (heap (handleSubmit w)) a))
               (getVisibleTodos (handleSubmit w))
           @ [SetFormClassName (getFormClassName w),
              SetHelperHTML (innerHTML_of (getHelperMessage (handleSubmit w))),
              SetInputValue '''', FocusInput]"
proof -
  from assms have ne: "textEl_value (page w) \<noteq> ''''" by simp
  have i: "items (handleSubmit w) = items w @ [\<lparr>item_text = v, completed = False\<rparr>]"
    using items_handleSubmit [OF assms(1) ne] assms(2) by simp
  have t: "todos (state (handleSubmit w)) = todos (state w) @ [fresh w]"
    by (simp add: handleSubmit_frame [OF ne])
  have vis: "getVisibleTodos (handleSubmit w)
      = filter (\<lambda>item. if hideCompleted (state w) then \<not> completed (heap (handleSubmit w) item) else True)
          (todos (state w)) @ [fresh w]"
    by (simp add: getVisibleTodos_def handleSubmit_frame [OF ne])
  have l: "last (ul (page (handleSubmit w)))
      = \<lparr>textNode = v, className = '''', click_item = fresh w\<rparr>"
    unfolding handleSubmit_page [OF ne] vis
    using assms(2) by (simp add: createLi_def handleSubmit_frame [OF ne])
  have p: "textEl_value (page (handleSubmit w)) = ''''"
    "textEl_focused (page (handleSubmit w)) = True"
    by (simp_all add: handleSubmit_page [OF ne])
  show ?thesis
    using i t l p handleSubmit_trace [OF ne] by simp
qed

theorem submit_appends_then_clears_witness:
  "heap_ok (seed_typed ''buy eggs'')
   \<and> textEl_value (page (seed_typed ''buy eggs'')) = ''buy eggs''
   \<and> ''buy eggs'' \<noteq> ''''
   \<and> items (handleSubmit (seed_typed ''buy eggs'')) =
       [\<lparr>item_text = ''buy milk'', completed = True\<rparr>,
        \<lparr>item_text = ''clean kitchen'', completed = False\<rparr>,
        \<lparr>item_text = ''learn js'', completed = False\<rparr>,
        \<lparr>item_text = ''buy eggs'', completed = False\<rparr>]
   \<and> textEl_value (page (handleSubmit (seed_typed ''buy eggs''))) = ''''"
proof -
  have v: "textEl_value (page (seed_typed ''buy eggs'')) = ''buy eggs''"
    by (simp add: seed_typed_def host_input_def)
  have ne: "''buy eggs'' \<noteq> ''''" by simp
  show ?thesis
    using submit_appends_then_clears [OF heap_ok_seed_typed v ne] heap_ok_seed_typed v
    by (simp add: items_seed_typed)
qed

text \<open>
  Claim C9. The guard of \<^verbatim>\<open>handleSubmit\<close> tests the value of the input as it is, with no
  trimming: whenever the value is not the empty string an item with exactly that text is
  appended, a text of blanks included, and the list grows by one item precisely when the
  value is not empty.
\<close>

theorem submit_guard_is_raw_emptiness:
  "(textEl_value (page w) \<noteq> '''' \<longrightarrow>
      todos (state (handleSubmit w)) = todos (state w) @ [fresh w]
      \<and> heap (handleSubmit w) (fresh w)
          = \<lparr>item_text = textEl_value (page w), completed = False\<rparr>
      \<and> last (items (handleSubmit w))
          = \<lparr>item_text = textEl_value (page w), completed = False\<rparr>)
   \<and> (length (items (handleSubmit w)) = Suc (length (items w)))
       = (textEl_value (page w) \<noteq> '''')"
proof (cases "textEl_value (page w) = ''''")
  case True
  then show ?thesis by (simp add: handleSubmit_empty items_def)
next
  case False
  then show ?thesis by (simp add: handleSubmit_frame [OF False] items_def)
qed

theorem submit_guard_witness:
  "textEl_value (page (seed_typed ''   '')) \<noteq> ''''
   \<and> last (items (handleSubmit (seed_typed ''   '')))
       = \<lparr>item_text = ''   '', completed = False\<rparr>
   \<and> length (items (handleSubmit (seed_typed ''   ''))) = 4"
proof -
  have v: "textEl_value (page (seed_typed ''   '')) = ''   ''"
    by (simp add: seed_typed_def host_input_def)
  show ?thesis
    using submit_guard_is_raw_emptiness [of "seed_typed ''   ''"] v
    by (simp add: items_seed_typed)
qed

subsection \<open>Clicking a row\<close>

text \<open>
  Claim C5, as amended. In a well-formed world a click on a visible row flips the
  \<^verbatim>\<open>completed\<close> flag of the item the row displays and keeps its text; every other item
  keeps both fields, and the list of items changes at the one position of that item. The
  render that follows reflects the flip: while \<^verbatim>\<open>hideCompleted\<close> is false the row stays in
  place and its done marker appears or disappears; while \<^verbatim>\<open>hideCompleted\<close> is true the
  clicked item becomes completed and its row leaves the list, the other rows unchanged.
  The hypothesis \<open>well_formed\<close> holds in every world the script reaches
  (\<open>reachable_well_formed\<close>): the items are distinct objects and the page shows the state.
\<close>

theorem click_flips_one_item:
  assumes "well_formed w" and "i < length (ul (page w))"
  shows "let a = click_item (ul (page w) ! i); w' = dispatch (ItemClick i) w in
     a \<in> set (todos (state w))
     \<and> textNode (ul (page w) ! i) = item_text (heap w a)
     \<and> (className (ul (page w) ! i) = ''is-done'') = completed (heap w a)
     \<and> heap w' a = (heap w a)\<lparr>completed := \<not> completed (heap w a)\<rparr>
     \<and> (\<forall>b. b \<noteq> a \<longrightarrow> heap w' b = heap w b)
     \<and> state w' = state w
     \<and> (\<exists>j < length (items w). todos (state w) ! j = a
          \<and> items w' = (items w)[j := (items w ! j)\<lparr>completed := \<not> completed (items w ! j)\<rparr>])
     \<and> (\<not> hideCompleted (state w) \<longrightarrow>
          ul (page w') = (ul (page w))
            [i := \<lparr>textNode = item_text (heap w a),
                   className = (if completed (heap w a) then '''' else ''is-done''),
                   click_item = a\<rparr>])
     \<and> (hideCompleted (state w) \<longrightarrow>
          ul (page w') = take i (ul (page w)) @ drop (Suc i) (ul (page w)))"
proof -
  let ?a = "click_item (ul (page w) ! i)"
  let ?w' = "li_click ?a w"
  from assms(1) have s: "in_sync w" and d: "distinct (todos (state w))"
    by (simp_all add: well_formed_def heap_ok_def)
  have e: "dispatch (ItemClick i) w = ?w'" using assms(2) by simp
  have m: "?a \<in> set (todos (state w))"
    using clicked_row(2,4) [OF s assms(2)] by simp
  have r: "ul (page w) ! i = createLi (heap w) ?a"
    using clicked_row(2,3) [OF s assms(2)] by simp
  have r1: "textNode (ul (page w) ! i) = item_text (heap w ?a)"
    by (subst r) (simp add: createLi_def)
  have r2: "(className (ul (page w) ! i) = ''is-done'') = completed (heap w ?a)"
    by (subst r) (simp add: createLi_def)
  have h: "heap ?w' ?a = (heap w ?a)\<lparr>completed := \<not> completed (heap w ?a)\<rparr>"
    "\<forall>b. b \<noteq> ?a \<longrightarrow> heap ?w' b = heap w b" "state ?w' = state w"
    by (simp_all add: handler_frame)
  from m obtain j where j: "j < length (todos (state w))" "todos (state w) ! j = ?a"
    by (auto simp: in_set_conv_nth)
  have it: "\<exists>j < length (items w). todos (state w) ! j = ?a
      \<and> items ?w' = (items w)[j := (items w ! j)\<lparr>completed := \<not> completed (items w ! j)\<rparr>]"
    using li_click_items [OF d j(1)] j by (auto simp: items_def)
  have sh: "\<not> hideCompleted (state w) \<longrightarrow>
      ul (page ?w') = (ul (page w))
        [i := \<lparr>textNode = item_text (heap w ?a),
               className = (if completed (heap w ?a) then '''' else ''is-done''),
               click_item = ?a\<rparr>]"
  proof
    assume n: "\<not> hideCompleted (state w)"
    have "createLi (heap ?w') ?a = \<lparr>textNode = item_text (heap w ?a),
               className = (if completed (heap w ?a) then '''' else ''is-done''),
               click_item = ?a\<rparr>"
      by (simp add: createLi_def handler_frame)
    with li_click_shown [OF assms n] show "ul (page ?w') = (ul (page w))
        [i := \<lparr>textNode = item_text (heap w ?a),
               className = (if completed (heap w ?a) then '''' else ''is-done''),
               click_item = ?a\<rparr>]"
      by simp
  qed
  have hi: "hideCompleted (state w) \<longrightarrow>
      ul (page ?w') = take i (ul (page w)) @ drop (Suc i) (ul (page w))"
    using li_click_hidden [OF assms] by blast
  show ?thesis
    unfolding Let_def e
    using m r1 r2 h it sh hi by blast
qed

theorem click_flips_one_item_witness:
  "well_formed seed_hidden
   \<and> 0 < length (ul (page seed_hidden))
   \<and> hideCompleted (state seed_hidden)
   \<and> ul (page (dispatch (ItemClick 0) seed_hidden))
       = [\<lparr>textNode = ''learn js'', className = '''', click_item = 2\<rparr>]
   \<and> well_formed (start blank_page)
   \<and> 0 < length (ul (page (start blank_page)))
   \<and> \<not> hideCompleted (state (start blank_page))
   \<and> ul (page (dispatch (ItemClick 0) (start blank_page)))
       = [\<lparr>textNode = ''buy milk'', className = '''', click_item = 0\<rparr>,
          \<lparr>textNode = ''clean kitchen'', className = '''', click_item = 1\<rparr>,
          \<lparr>textNode = ''learn js'', className = '''', click_item = 2\<rparr>]"
proof -
  have l1: "0 < length (ul (page seed_hidden))" by (simp add: seed_hidden_rows)
  have l2: "0 < length (ul (page (start blank_page)))" by (simp add: start_rows)
  have h1: "hideCompleted (state seed_hidden)" by (simp add: seed_hidden_frame)
  have h2: "\<not> hideCompleted (state (start blank_page))"
    by (simp add: start_frame seed_state_def)
  have a: "ul (page (dispatch (ItemClick 0) seed_hidden))
       = [\<lparr>textNode = ''learn js'', className = '''', click_item = 2\<rparr>]"
    using click_flips_one_item [OF well_formed_seed_hidden l1] h1
    unfolding Let_def by (simp add: seed_hidden_rows)
  have b: "ul (page (dispatch (ItemClick 0) (start blank_page)))
       = [\<lparr>textNode = ''buy milk'', className = '''', click_item = 0\<rparr>,
          \<lparr>textNode = ''clean kitchen'', className = '''', click_item = 1\<rparr>,
          \<lparr>textNode = ''learn js'', className = '''', click_item = 2\<rparr>]"
    using click_flips_one_item [OF well_formed_start l2] h2
    unfolding Let_def by (simp add: start_rows start_frame seed_heap_def)
  show ?thesis
    using well_formed_seed_hidden well_formed_start l1 l2 h1 h2 a b by blast
qed

text \<open>
  The claim as first stated has the done marker appear on the clicked row in every state.
  With the seed items and the checkbox ticked, the first row shows \<^verbatim>\<open>clean kitchen\<close>; after
  a click on it the item is completed, and the only row left shows \<^verbatim>\<open>learn js\<close> with no
  marker.
\<close>

theorem click_marker_counterexample:
  "well_formed seed_hidden
   \<and> 0 < length (ul (page seed_hidden))
   \<and> ul (page seed_hidden) ! 0
       = \<lparr>textNode = ''clean kitchen'', className = '''', click_item = 1\<rparr>
   \<and> completed (heap (dispatch (ItemClick 0) seed_hidden) 1) = True
   \<and> ul (page (dispatch (ItemClick 0) seed_hidden))
       = [\<lparr>textNode = ''learn js'', className = '''', click_item = 2\<rparr>]
   \<and> className (ul (page (dispatch (ItemClick 0) seed_hidden)) ! 0) \<noteq> ''is-done''"
proof -
  have c: "completed (heap (li_click 1 seed_hidden) 1) = True"
    by (simp add: handler_frame seed_hidden_frame seed_heap_def)
  show ?thesis
    unfolding seed_hidden_click seed_hidden_click_rows
    using well_formed_seed_hidden c by (simp add: seed_hidden_rows)
qed

end
